theory Spec2Isabelle
  imports Main "HOL-Library.Sublist"
begin

section \<open>Element trees\<close>

text \<open>
  A component of the front end is a function that returns a JSX expression. Evaluating a
  JSX expression builds an element tree: every element records its type (a host tag such
  as \<open>main\<close> or \<open>h1\<close>, or a reference to an imported component such as \<open>Link\<close>),
  its attributes in the order they are written, and its children. Components that occur
  in a tree are references: the function that returns the tree does not call them.
\<close>

datatype jsval =
    JString string
  | JNumber int
  | JObject "(string \<times> jsval) list"
  | JUndefined

datatype elem_type =
    Host string
  | Component string

datatype node =
    Element elem_type "(string \<times> jsval) list" "node list"
  | JSXText string

fun node_type :: "node \<Rightarrow> elem_type option" where
  "node_type (Element ty ps cs) = Some ty"
| "node_type (JSXText s) = None"

fun props :: "node \<Rightarrow> (string \<times> jsval) list" where
  "props (Element ty ps cs) = ps"
| "props (JSXText s) = []"

fun children :: "node \<Rightarrow> node list" where
  "children (Element ty ps cs) = cs"
| "children (JSXText s) = []"

text \<open>
  The value of an attribute. Attributes become the fields of one props object, so where a
  name is written twice the later one is kept.
\<close>

definition get_prop :: "string \<Rightarrow> node \<Rightarrow> jsval option" where
  "get_prop k n = map_of (rev (props n)) k"

text \<open>The text an element shows: the text nodes below it, in order.\<close>

fun text_content :: "node \<Rightarrow> string" where
  "text_content (JSXText s) = s"
| "text_content (Element ty ps cs) = concat (map text_content cs)"

text \<open>
  Document order. A node is addressed by its path, the child indices that lead to it
  from the root; \<open>preorder\<close> lists every node with its path, a parent before its
  children and the children from first to last.
\<close>

fun preorder :: "node \<Rightarrow> (nat list \<times> node) list"
  and preorder_from :: "nat \<Rightarrow> node list \<Rightarrow> (nat list \<times> node) list" where
  "preorder (JSXText s) = [([], JSXText s)]"
| "preorder (Element ty ps cs) = ([], Element ty ps cs) # preorder_from 0 cs"
| "preorder_from i [] = []"
| "preorder_from i (c # cs) =
     map (\<lambda>(p, n). (i # p, n)) (preorder c) @ preorder_from (Suc i) cs"

fun subtree :: "node \<Rightarrow> nat list \<Rightarrow> node option" where
  "subtree t [] = Some t"
| "subtree t (i # p) =
     (if i < length (children t) then subtree (children t ! i) p else None)"

definition elements_of :: "elem_type \<Rightarrow> node \<Rightarrow> (nat list \<times> node) list" where
  "elements_of ty t = filter (\<lambda>(p, n). node_type n = Some ty) (preorder t)"

definition paths_of :: "elem_type \<Rightarrow> node \<Rightarrow> nat list list" where
  "paths_of ty t = map fst (elements_of ty t)"

text \<open>The path of the only element of a type, when there is exactly one.\<close>

definition sole_path :: "elem_type \<Rightarrow> node \<Rightarrow> nat list option" where
  "sole_path ty t = (case paths_of ty t of [p] \<Rightarrow> Some p | _ \<Rightarrow> None)"

text \<open>\<open>a\<close> occurs in the list and \<open>b\<close> occurs after its first occurrence.\<close>

definition appears_before :: "'a \<Rightarrow> 'a \<Rightarrow> 'a list \<Rightarrow> bool" where
  "appears_before a b xs = (b \<in> set (drop 1 (dropWhile (\<lambda>x. x \<noteq> a) xs)))"

definition doc_before :: "node \<Rightarrow> nat list \<Rightarrow> nat list \<Rightarrow> bool" where
  "doc_before t p q = appears_before p q (map fst (preorder t))"

section \<open>The components\<close>

text \<open>
  \<^verbatim>\<open>
  export const Logo = (): JSX.Element => {
    return (
      <Link href={"/"} className="flex items-center gap-4">
        <Image className="rounded-full" src={"/logo.png"} alt="Max Smart"
               width={48} height={48} />
        <h1 className="font-bold">Max Smart</h1>
      </Link>
    );
  };
  \<close>
\<close>

definition Logo :: "unit \<Rightarrow> node" where
  "Logo u =
     Element (Component ''Link'')
       [(''href'', JString ''/''), (''className'', JString ''flex items-center gap-4'')]
       [Element (Component ''Image'')
          [(''className'', JString ''rounded-full''),
           (''src'', JString ''/logo.png''),
           (''alt'', JString ''Max Smart''),
           (''width'', JNumber 48),
           (''height'', JNumber 48)]
          [],
        Element (Host ''h1'') [(''className'', JString ''font-bold'')]
          [JSXText ''Max Smart'']]"

text \<open>
  \<^verbatim>\<open>
  const SelectedChatPage = (): JSX.Element => {
    return (
      <main className="flex flex-col w-full pt-10" data-testid="chat-page">
        <section className="flex flex-col flex-1 items-center w-full h-full min-h-[70vh]">
          <PageHeading title="Chat with Max Smart"
                       subtitle="Talk to your AI about your data" />
          <ChatProvider>
            <div className="relative w-full flex flex-col flex-1 items-center">
              <div className="flex-1 w-full flex flex-col items-center">
                <ChatMessages />
              </div>
              <ChatInput />
            </div>
          </ChatProvider>
        </section>
      </main>
    );
  };
  \<close>
\<close>

definition SelectedChatPage :: "unit \<Rightarrow> node" where
  "SelectedChatPage u =
     Element (Host ''main'')
       [(''className'', JString ''flex flex-col w-full pt-10''),
        (''data-testid'', JString ''chat-page'')]
       [Element (Host ''section'')
          [(''className'',
            JString ''flex flex-col flex-1 items-center w-full h-full min-h-[70vh]'')]
          [Element (Component ''PageHeading'')
             [(''title'', JString ''Chat with Max Smart''),
              (''subtitle'', JString ''Talk to your AI about your data'')]
             [],
           Element (Component ''ChatProvider'') []
             [Element (Host ''div'')
                [(''className'',
                  JString ''relative w-full flex flex-col flex-1 items-center'')]
                [Element (Host ''div'')
                   [(''className'', JString ''flex-1 w-full flex flex-col items-center'')]
                   [Element (Component ''ChatMessages'') [] []],
                 Element (Component ''ChatInput'') [] []]]]]"

section \<open>Styling\<close>








section \<open>The components as written, and their calls\<close>

text \<open>
  The syntax of a component: an arrow function with a parameter list, whose body
  returns a JSX expression. An attribute is written as a string (\<open>name="..."\<close>) or as
  an expression in braces (\<open>name={e}\<close>). The expressions are literals, references to a
  parameter or to a variable of the enclosing scope, member access and assignment: the
  forms by which a body depends on its arguments or on the program state, or changes
  that state. An element name such as \<open>Link\<close> stands for an import, which is fixed.
\<close>

datatype expr =
    StringLiteral string
  | NumericLiteral int
  | Identifier string
  | MemberExpression expr string
  | AssignmentExpression string expr

datatype attr_value =
    AttrString string
  | AttrExpr expr

datatype jsx =
    JSXElement elem_type "(string \<times> attr_value) list" "jsx list"
  | JSXTextLit string

datatype arrow_fn = ArrowFunction (fn_params: "string list") (fn_body: jsx)

definition Logo_src :: arrow_fn where
  "Logo_src =
     ArrowFunction []
       (JSXElement (Component ''Link'')
          [(''href'', AttrExpr (StringLiteral ''/'')),
           (''className'', AttrString ''flex items-center gap-4'')]
          [JSXElement (Component ''Image'')
             [(''className'', AttrString ''rounded-full''),
              (''src'', AttrExpr (StringLiteral ''/logo.png'')),
              (''alt'', AttrString ''Max Smart''),
              (''width'', AttrExpr (NumericLiteral 48)),
              (''height'', AttrExpr (NumericLiteral 48))]
             [],
           JSXElement (Host ''h1'') [(''className'', AttrString ''font-bold'')]
             [JSXTextLit ''Max Smart'']])"

definition SelectedChatPage_src :: arrow_fn where
  "SelectedChatPage_src =
     ArrowFunction []
       (JSXElement (Host ''main'')
          [(''className'', AttrString ''flex flex-col w-full pt-10''),
           (''data-testid'', AttrString ''chat-page'')]
          [JSXElement (Host ''section'')
             [(''className'',
               AttrString ''flex flex-col flex-1 items-center w-full h-full min-h-[70vh]'')]
             [JSXElement (Component ''PageHeading'')
                [(''title'', AttrString ''Chat with Max Smart''),
                 (''subtitle'', AttrString ''Talk to your AI about your data'')]
                [],
              JSXElement (Component ''ChatProvider'') []
                [JSXElement (Host ''div'')
                   [(''className'',
                     AttrString ''relative w-full flex flex-col flex-1 items-center'')]
                   [JSXElement (Host ''div'')
                      [(''className'',
                        AttrString ''flex-1 w-full flex flex-col items-center'')]
                      [JSXElement (Component ''ChatMessages'') [] []],
                    JSXElement (Component ''ChatInput'') [] []]]]])"

text \<open>
  Evaluation. A call runs the body in a state of two scopes: the bindings of the
  call's own parameters, and the variables of the enclosing program. A reference to a
  name that neither scope binds raises \<open>ReferenceError\<close>, member access on
  \<open>undefined\<close> raises \<open>TypeError\<close>; an assignment writes the scope that binds the name.
  Attributes are evaluated from left to right, then the children, and the state is
  passed along.
\<close>

datatype js_error =
    ReferenceError string
  | TypeError string

type_synonym scope = "string \<rightharpoonup> jsval"

type_synonym js_state = "scope \<times> scope"

definition get_field :: "(string \<times> jsval) list \<Rightarrow> string \<Rightarrow> jsval" where
  "get_field fs k = (case map_of (rev fs) k of Some v \<Rightarrow> v | None \<Rightarrow> JUndefined)"

fun eval_expr :: "expr \<Rightarrow> js_state \<Rightarrow> js_error + (jsval \<times> js_state)" where
  "eval_expr (StringLiteral s) st = Inr (JString s, st)"
| "eval_expr (NumericLiteral k) st = Inr (JNumber k, st)"
| "eval_expr (Identifier x) (l, w) =
     (case l x of
        Some v \<Rightarrow> Inr (v, (l, w))
      | None \<Rightarrow>
          (case w x of
             Some v \<Rightarrow> Inr (v, (l, w))
           | None \<Rightarrow> Inl (ReferenceError x)))"
| "eval_expr (MemberExpression e f) st =
     (case eval_expr e st of
        Inl err \<Rightarrow> Inl err
      | Inr (v, st') \<Rightarrow>
          (case v of
             JObject fs \<Rightarrow> Inr (get_field fs f, st')
           | JUndefined \<Rightarrow> Inl (TypeError f)
           | _ \<Rightarrow> Inr (JUndefined, st')))"
| "eval_expr (AssignmentExpression x e) st =
     (case eval_expr e st of
        Inl err \<Rightarrow> Inl err
      | Inr (v, (l, w)) \<Rightarrow>
          (case l x of
             Some old \<Rightarrow> Inr (v, (l(x \<mapsto> v), w))
           | None \<Rightarrow>
               (case w x of
                  Some old \<Rightarrow> Inr (v, (l, w(x \<mapsto> v)))
                | None \<Rightarrow> Inl (ReferenceError x))))"

fun eval_attr :: "attr_value \<Rightarrow> js_state \<Rightarrow> js_error + (jsval \<times> js_state)" where
  "eval_attr (AttrString s) st = Inr (JString s, st)"
| "eval_attr (AttrExpr e) st = eval_expr e st"

fun eval_attrs ::
  "(string \<times> attr_value) list \<Rightarrow> js_state \<Rightarrow> js_error + ((string \<times> jsval) list \<times> js_state)"
where
  "eval_attrs [] st = Inr ([], st)"
| "eval_attrs ((k, a) # as) st =
     (case eval_attr a st of
        Inl err \<Rightarrow> Inl err
      | Inr (v, st') \<Rightarrow>
          (case eval_attrs as st' of
             Inl err \<Rightarrow> Inl err
           | Inr (ps, st'') \<Rightarrow> Inr ((k, v) # ps, st'')))"

fun eval_jsx :: "jsx \<Rightarrow> js_state \<Rightarrow> js_error + (node \<times> js_state)"
  and eval_children :: "jsx list \<Rightarrow> js_state \<Rightarrow> js_error + (node list \<times> js_state)"
where
  "eval_jsx (JSXTextLit s) st = Inr (JSXText s, st)"
| "eval_jsx (JSXElement ty as cs) st =
     (case eval_attrs as st of
        Inl err \<Rightarrow> Inl err
      | Inr (ps, st') \<Rightarrow>
          (case eval_children cs st' of
             Inl err \<Rightarrow> Inl err
           | Inr (ns, st'') \<Rightarrow> Inr (Element ty ps ns, st'')))"
| "eval_children [] st = Inr ([], st)"
| "eval_children (c # cs) st =
     (case eval_jsx c st of
        Inl err \<Rightarrow> Inl err
      | Inr (n, st') \<Rightarrow>
          (case eval_children cs st' of
             Inl err \<Rightarrow> Inl err
           | Inr (ns, st'') \<Rightarrow> Inr (n # ns, st'')))"

text \<open>
  A call binds the parameters to the arguments, in order; a parameter without an
  argument is \<open>undefined\<close>, an argument without a parameter is bound to nothing. It
  yields the returned tree and the state of the enclosing program after the call.
\<close>

fun bind_params :: "string list \<Rightarrow> jsval list \<Rightarrow> scope" where
  "bind_params [] args = Map.empty"
| "bind_params (p # ps) [] = (bind_params ps [])(p \<mapsto> JUndefined)"
| "bind_params (p # ps) (a # args) = (bind_params ps args)(p \<mapsto> a)"

definition call :: "arrow_fn \<Rightarrow> jsval list \<Rightarrow> scope \<Rightarrow> js_error + (node \<times> scope)" where
  "call f args w =
     (case eval_jsx (fn_body f) (bind_params (fn_params f) args, w) of
        Inl err \<Rightarrow> Inl err
      | Inr (n, (l, w')) \<Rightarrow> Inr (n, w'))"

text \<open>The names a body refers to, by reading or by assignment.\<close>

fun expr_names :: "expr \<Rightarrow> string list" where
  "expr_names (StringLiteral s) = []"
| "expr_names (NumericLiteral k) = []"
| "expr_names (Identifier x) = [x]"
| "expr_names (MemberExpression e f) = expr_names e"
| "expr_names (AssignmentExpression x e) = x # expr_names e"

fun attr_names :: "attr_value \<Rightarrow> string list" where
  "attr_names (AttrString s) = []"
| "attr_names (AttrExpr e) = expr_names e"

fun jsx_names :: "jsx \<Rightarrow> string list" where
  "jsx_names (JSXTextLit s) = []"
| "jsx_names (JSXElement ty as cs) =
     concat (map (\<lambda>(k, a). attr_names a) as) @ concat (map jsx_names cs)"

text \<open>An outcome that does not depend on the state and leaves it as it was.\<close>

definition unchanged :: "js_error + 'a \<Rightarrow> js_state \<Rightarrow> js_error + ('a \<times> js_state)" where
  "unchanged r st = (case r of Inl err \<Rightarrow> Inl err | Inr v \<Rightarrow> Inr (v, st))"

text \<open>
  The props with which the host calls a page under \<open>chat/[chatId]\<close>: an object whose
  \<open>params\<close> field holds the route parameter.
\<close>

definition page_props :: "string \<Rightarrow> jsval" where
  "page_props chatId = JObject [(''params'', JObject [(''chatId'', JString chatId)])]"

section \<open>Paths and document order\<close>

lemma preorder_subtree:
  "(p, n) \<in> set (preorder t) \<Longrightarrow> subtree t p = Some n"
  "(p, n) \<in> set (preorder_from i cs) \<Longrightarrow>
     \<exists>j q. p = (i + j) # q \<and> j < length cs \<and> subtree (cs ! j) q = Some n"
proof (induction t and i cs arbitrary: p n and p n rule: preorder_preorder_from.induct)
  case (1 s)
  then show ?case by simp
next
  case (2 ty ps cs)
  show ?case
  proof (cases "p = [] \<and> n = Element ty ps cs")
    case True
    then show ?thesis by simp
  next
    case False
    with "2.prems" have "(p, n) \<in> set (preorder_from 0 cs)" by auto
    from "2.IH" [OF this] show ?thesis by auto
  qed
next
  case (3 i)
  then show ?case by simp
next
  case (4 i c cs)
  from "4.prems" consider
      (here) q where "p = i # q" "(q, n) \<in> set (preorder c)"
    | (later) "(p, n) \<in> set (preorder_from (Suc i) cs)"
    by auto
  then show ?case
  proof cases
    case here
    from "4.IH"(1) [OF here(2)] here(1) show ?thesis
      by (intro exI [of _ 0] exI [of _ q]) simp
  next
    case later
    from "4.IH"(2) [OF later] obtain j q where
      "p = (Suc i + j) # q" "j < length cs" "subtree (cs ! j) q = Some n"
      by blast
    then show ?thesis
      by (intro exI [of _ "Suc j"] exI [of _ q]) simp
  qed
qed

text \<open>The paths of the two trees, and of the elements that occur once in them.\<close>

lemma SelectedChatPage_paths:
  "map fst (preorder (SelectedChatPage u))
     = [[], [0], [0, 0], [0, 1], [0, 1, 0], [0, 1, 0, 0], [0, 1, 0, 0, 0], [0, 1, 0, 1]]"
  by (simp add: SelectedChatPage_def)

lemma SelectedChatPage_sole_paths:
  "sole_path (Component ''PageHeading'') (SelectedChatPage u) = Some [0, 0]"
  "sole_path (Component ''ChatProvider'') (SelectedChatPage u) = Some [0, 1]"
  "sole_path (Component ''ChatMessages'') (SelectedChatPage u) = Some [0, 1, 0, 0, 0]"
  "sole_path (Component ''ChatInput'') (SelectedChatPage u) = Some [0, 1, 0, 1]"
  by (simp_all add: SelectedChatPage_def sole_path_def paths_of_def elements_of_def)

lemma Logo_paths: "map fst (preorder (Logo u)) = [[], [0], [1], [1, 0]]"
  by (simp add: Logo_def)

lemma Logo_sole_paths:
  "sole_path (Component ''Link'') (Logo u) = Some []"
  "sole_path (Component ''Image'') (Logo u) = Some [0]"
  "sole_path (Host ''h1'') (Logo u) = Some [1]"
  by (simp_all add: Logo_def sole_path_def paths_of_def elements_of_def)

section \<open>Calls of closed functions\<close>

lemma expr_names_pure:
  "expr_names e = [] \<Longrightarrow> \<exists>r. \<forall>st. eval_expr e st = unchanged r st"
proof (induction e)
  case (StringLiteral s)
  show ?case by (rule exI [of _ "Inr (JString s)"]) (simp add: unchanged_def)
next
  case (NumericLiteral k)
  show ?case by (rule exI [of _ "Inr (JNumber k)"]) (simp add: unchanged_def)
next
  case (Identifier x)
  then show ?case by simp
next
  case (MemberExpression e f)
  then obtain r where r: "\<forall>st. eval_expr e st = unchanged r st" by auto
  show ?case
    by (rule exI [of _ "case r of Inl err \<Rightarrow> Inl err
                         | Inr v \<Rightarrow> (case v of JObject fs \<Rightarrow> Inr (get_field fs f)
                                      | JUndefined \<Rightarrow> Inl (TypeError f)
                                      | _ \<Rightarrow> Inr JUndefined)"])
       (simp add: r unchanged_def split: sum.splits jsval.splits)
next
  case (AssignmentExpression x e)
  then show ?case by simp
qed

lemma attrs_names_pure:
  "concat (map (\<lambda>(k, a). attr_names a) as) = [] \<Longrightarrow>
     \<exists>r. \<forall>st. eval_attrs as st = unchanged r st"
proof (induction as)
  case Nil
  show ?case by (rule exI [of _ "Inr []"]) (simp add: unchanged_def)
next
  case (Cons ka as)
  obtain k a where ka: "ka = (k, a)" by (cases ka)
  from Cons.prems ka have "attr_names a = []" by simp
  then have "\<exists>r. \<forall>st. eval_attr a st = unchanged r st"
  proof (cases a)
    case (AttrString s)
    show ?thesis unfolding AttrString
      by (rule exI [of _ "Inr (JString s)"]) (simp add: unchanged_def)
  next
    case (AttrExpr e)
    with \<open>attr_names a = []\<close> have "expr_names e = []" by simp
    from expr_names_pure [OF this] show ?thesis unfolding AttrExpr by simp
  qed
  then obtain ra where ra: "\<forall>st. eval_attr a st = unchanged ra st" by blast
  from Cons obtain rs where rs: "\<forall>st. eval_attrs as st = unchanged rs st" by auto
  show ?case unfolding ka
    by (rule exI [of _ "case ra of Inl err \<Rightarrow> Inl err
                         | Inr v \<Rightarrow> (case rs of Inl err \<Rightarrow> Inl err
                                      | Inr ps \<Rightarrow> Inr ((k, v) # ps))"])
       (simp add: ra rs unchanged_def split: sum.splits)
qed

lemma children_names_pure:
  assumes "\<And>c. c \<in> set cs \<Longrightarrow> jsx_names c = [] \<Longrightarrow> \<exists>r. \<forall>st. eval_jsx c st = unchanged r st"
    and "concat (map jsx_names cs) = []"
  shows "\<exists>r. \<forall>st. eval_children cs st = unchanged r st"
  using assms
proof (induction cs)
  case Nil
  show ?case by (rule exI [of _ "Inr []"]) (simp add: unchanged_def)
next
  case (Cons c cs)
  from Cons.prems obtain rc where rc: "\<forall>st. eval_jsx c st = unchanged rc st"
    by (metis append_is_Nil_conv concat.simps(2) list.set_intros(1) list.simps(9))
  from Cons obtain rs where rs: "\<forall>st. eval_children cs st = unchanged rs st"
    by (metis append_is_Nil_conv concat.simps(2) list.set_intros(2) list.simps(9))
  show ?case
    by (rule exI [of _ "case rc of Inl err \<Rightarrow> Inl err
                         | Inr n \<Rightarrow> (case rs of Inl err \<Rightarrow> Inl err
                                      | Inr ns \<Rightarrow> Inr (n # ns))"])
       (simp add: rc rs unchanged_def split: sum.splits)
qed

lemma jsx_names_pure:
  "jsx_names j = [] \<Longrightarrow> \<exists>r. \<forall>st. eval_jsx j st = unchanged r st"
proof (induction j)
  case (JSXTextLit s)
  show ?case by (rule exI [of _ "Inr (JSXText s)"]) (simp add: unchanged_def)
next
  case (JSXElement ty as cs)
  from JSXElement.prems have "concat (map (\<lambda>(k, a). attr_names a) as) = []"
    and cs: "concat (map jsx_names cs) = []" by simp_all
  then obtain ra where ra: "\<forall>st. eval_attrs as st = unchanged ra st"
    using attrs_names_pure by blast
  from children_names_pure [OF JSXElement.IH cs]
  obtain rs where rs: "\<forall>st. eval_children cs st = unchanged rs st" by blast
  show ?case
    by (rule exI [of _ "case ra of Inl err \<Rightarrow> Inl err
                         | Inr ps \<Rightarrow> (case rs of Inl err \<Rightarrow> Inl err
                                      | Inr ns \<Rightarrow> Inr (Element ty ps ns))"])
       (simp add: ra rs unchanged_def split: sum.splits)
qed

text \<open>A function without parameters whose body refers to no name: every call has the same
  outcome and leaves the state of the program as it was.\<close>

lemma closed_call_pure:
  assumes "fn_params f = []" and "jsx_names (fn_body f) = []"
  shows "\<exists>r. \<forall>args w. call f args w = (case r of Inl err \<Rightarrow> Inl err | Inr n \<Rightarrow> Inr (n, w))"
proof -
  from jsx_names_pure [OF assms(2)]
  obtain r where r: "\<forall>st. eval_jsx (fn_body f) st = unchanged r st" by blast
  show ?thesis
    by (rule exI [of _ r]) (simp add: call_def r unchanged_def assms(1) split: sum.splits)
qed

text \<open>
  A body that reads a parameter returns a tree that depends on the argument, and a body
  that assigns to a variable of the program changes the state.
\<close>

lemma call_binds_arguments:
  "call (ArrowFunction [''props'']
           (JSXElement (Host ''p'')
              [(''id'', AttrExpr (MemberExpression
                   (MemberExpression (Identifier ''props'') ''params'') ''chatId''))] []))
        [page_props c] w
     = Inr (Element (Host ''p'') [(''id'', JString c)] [], w)"
  by (simp add: call_def page_props_def get_field_def)

lemma call_writes_state:
  "w ''count'' = Some old \<Longrightarrow>
   call (ArrowFunction []
           (JSXElement (Host ''p'')
              [(''n'', AttrExpr (AssignmentExpression ''count'' (NumericLiteral 1)))] []))
        args w
     = Inr (Element (Host ''p'') [(''n'', JNumber 1)] [], w(''count'' \<mapsto> JNumber 1))"
  by (simp add: call_def)

section \<open>Logo\<close>

text \<open>
  C1. Every call of \<open>Logo\<close> renders exactly one link element, and the destination
  (\<open>href\<close>) of that link is the root path \<open>/\<close>.
\<close>

theorem Logo_one_link_to_root:
  "map (\<lambda>(p, n). get_prop ''href'' n) (elements_of (Component ''Link'') (Logo u))
     = [Some (JString ''/'')]"
  by (simp add: Logo_def elements_of_def get_prop_def)

text \<open>
  C4. Every call of \<open>Logo\<close> renders an image whose width is 48 and whose height is 48;
  there is exactly one image.
\<close>

theorem Logo_image_48_square:
  "map (\<lambda>(p, n). (get_prop ''width'' n, get_prop ''height'' n))
       (elements_of (Component ''Image'') (Logo u))
     = [(Some (JNumber 48), Some (JNumber 48))]"
  by (simp add: Logo_def elements_of_def get_prop_def)



text \<open>
  C9. The fallback (\<open>alt\<close>) text of the image rendered by \<open>Logo\<close> is the string
  \<open>Max Smart\<close>, the same string as the text of the visible label.
\<close>

theorem Logo_image_alt_is_label:
  "map (\<lambda>(p, n). get_prop ''alt'' n) (elements_of (Component ''Image'') (Logo u))
     = [Some (JString ''Max Smart'')]
   \<and> map (\<lambda>(p, n). get_prop ''alt'' n) (elements_of (Component ''Image'') (Logo u))
     = map (\<lambda>(p, n). Some (JString (text_content n)))
         (elements_of (Host ''h1'') (Logo u))"
  by (simp add: Logo_def elements_of_def get_prop_def)

section \<open>SelectedChatPage\<close>

text \<open>
  C2. Every call of \<open>SelectedChatPage\<close> renders exactly one heading, with title
  \<open>Chat with Max Smart\<close> and subtitle \<open>Talk to your AI about your data\<close>: the tree
  holds one \<open>PageHeading\<close> element with these two attributes, and no host heading
  element (\<open>h1\<close> to \<open>h6\<close>) of its own.
\<close>

theorem SelectedChatPage_one_heading:
  "map (\<lambda>(p, n). (get_prop ''title'' n, get_prop ''subtitle'' n))
       (elements_of (Component ''PageHeading'') (SelectedChatPage u))
     = [(Some (JString ''Chat with Max Smart''),
         Some (JString ''Talk to your AI about your data''))]
   \<and> concat (map (\<lambda>h. elements_of (Host h) (SelectedChatPage u))
         [''h1'', ''h2'', ''h3'', ''h4'', ''h5'', ''h6'']) = []"
  by (simp add: SelectedChatPage_def elements_of_def get_prop_def)

text \<open>
  C3. In the tree returned by \<open>SelectedChatPage\<close> there is one \<open>ChatProvider\<close>, one
  \<open>ChatMessages\<close> and one \<open>ChatInput\<close> element; the message list and the input both lie
  below the provider, and the message list comes before the input in document order.
\<close>

theorem SelectedChatPage_messages_before_input:
  "\<exists>p m i.
      sole_path (Component ''ChatProvider'') (SelectedChatPage u) = Some p
    \<and> sole_path (Component ''ChatMessages'') (SelectedChatPage u) = Some m
    \<and> sole_path (Component ''ChatInput'') (SelectedChatPage u) = Some i
    \<and> strict_prefix p m \<and> strict_prefix p i
    \<and> doc_before (SelectedChatPage u) m i"
proof (intro exI conjI)
  show "sole_path (Component ''ChatProvider'') (SelectedChatPage u) = Some [0, 1]"
    by (rule SelectedChatPage_sole_paths)
  show "sole_path (Component ''ChatMessages'') (SelectedChatPage u) = Some [0, 1, 0, 0, 0]"
    by (rule SelectedChatPage_sole_paths)
  show "sole_path (Component ''ChatInput'') (SelectedChatPage u) = Some [0, 1, 0, 1]"
    by (rule SelectedChatPage_sole_paths)
  show "strict_prefix [0, 1] [0, 1, 0, 0, 0::nat]"
    by (simp add: strict_prefix_def)
  show "strict_prefix [0, 1] [0, 1, 0, 1::nat]"
    by (simp add: strict_prefix_def)
  show "doc_before (SelectedChatPage u) [0, 1, 0, 0, 0] [0, 1, 0, 1]"
    by (simp add: doc_before_def appears_before_def SelectedChatPage_paths)
qed

text \<open>
  C8. In the tree returned by \<open>SelectedChatPage\<close> the page heading comes before the
  provider and before every node of the provider's region in document order, and the
  heading does not lie inside the provider's region.
\<close>

theorem SelectedChatPage_heading_before_provider:
  "\<exists>h p.
      sole_path (Component ''PageHeading'') (SelectedChatPage u) = Some h
    \<and> sole_path (Component ''ChatProvider'') (SelectedChatPage u) = Some p
    \<and> doc_before (SelectedChatPage u) h p
    \<and> \<not> prefix p h
    \<and> filter (\<lambda>q. prefix p q \<and> \<not> doc_before (SelectedChatPage u) h q)
         (map fst (preorder (SelectedChatPage u))) = []"
proof (intro exI conjI)
  show "sole_path (Component ''PageHeading'') (SelectedChatPage u) = Some [0, 0]"
    by (rule SelectedChatPage_sole_paths)
  show "sole_path (Component ''ChatProvider'') (SelectedChatPage u) = Some [0, 1]"
    by (rule SelectedChatPage_sole_paths)
  show "doc_before (SelectedChatPage u) [0, 0] [0, 1]"
    by (simp add: doc_before_def appears_before_def SelectedChatPage_paths)
  show "\<not> prefix [0, 1] [0, 0::nat]"
    by simp
  show "filter (\<lambda>q. prefix [0, 1] q \<and> \<not> doc_before (SelectedChatPage u) [0, 0] q)
         (map fst (preorder (SelectedChatPage u))) = []"
    by (simp add: doc_before_def appears_before_def SelectedChatPage_paths)
qed

text \<open>
  C10. Inside the link rendered by \<open>Logo\<close> the image comes before the text label, and
  the root element returned by \<open>SelectedChatPage\<close> carries the test identifier
  \<open>chat-page\<close>.
\<close>

theorem Logo_image_first_page_testid:
  "(\<exists>l i t.
      sole_path (Component ''Link'') (Logo u) = Some l
    \<and> sole_path (Component ''Image'') (Logo u) = Some i
    \<and> sole_path (Host ''h1'') (Logo u) = Some t
    \<and> strict_prefix l i \<and> strict_prefix l t
    \<and> doc_before (Logo u) i t)
   \<and> get_prop ''data-testid'' (SelectedChatPage v) = Some (JString ''chat-page'')"
proof (intro exI conjI)
  show "sole_path (Component ''Link'') (Logo u) = Some []"
    by (rule Logo_sole_paths)
  show "sole_path (Component ''Image'') (Logo u) = Some [0]"
    by (rule Logo_sole_paths)
  show "sole_path (Host ''h1'') (Logo u) = Some [1]"
    by (rule Logo_sole_paths)
  show "strict_prefix [] [0::nat]" and "strict_prefix [] [1::nat]"
    by simp_all
  show "doc_before (Logo u) [0] [1]"
    by (simp add: doc_before_def appears_before_def Logo_paths)
  show "get_prop ''data-testid'' (SelectedChatPage v) = Some (JString ''chat-page'')"
    by (simp add: SelectedChatPage_def get_prop_def)
qed

section \<open>Determinism and the route parameter\<close>

text \<open>
  C6. Any two calls of \<open>Logo\<close>, and any two calls of \<open>SelectedChatPage\<close>, return the
  same tree, whatever the arguments and the state of the program at each call; every
  call returns (it raises no error) and leaves the state of the program as it found it.
\<close>

theorem components_deterministic:
  "call Logo_src args1 w1 = Inr (Logo (), w1)
   \<and> call Logo_src args2 w2 = Inr (Logo (), w2)
   \<and> call SelectedChatPage_src args1 w1 = Inr (SelectedChatPage (), w1)
   \<and> call SelectedChatPage_src args2 w2 = Inr (SelectedChatPage (), w2)"
  by (simp add: call_def Logo_src_def Logo_def SelectedChatPage_src_def SelectedChatPage_def)

text \<open>
  C7. \<open>SelectedChatPage\<close> declares no parameter and its body refers to no name, so it
  neither reads nor uses the route parameter; called with the props of any two values
  of \<open>chatId\<close>, it returns the same tree.
\<close>

theorem SelectedChatPage_ignores_chatId:
  "call SelectedChatPage_src [page_props chatId1] w = Inr (SelectedChatPage (), w)
   \<and> call SelectedChatPage_src [page_props chatId2] w = Inr (SelectedChatPage (), w)
   \<and> fn_params SelectedChatPage_src = []
   \<and> jsx_names (fn_body SelectedChatPage_src) = []"
  by (simp add: call_def SelectedChatPage_src_def SelectedChatPage_def)

end
